theory Spec2Isabelle
  imports Main
begin

section \<open>Data model\<close>

text \<open>
  The loader script \<^verbatim>\<open>02_load_data.py\<close> consists of one routine,
  \<^verbatim>\<open>load_data_to_sql\<close>, a straight line of calls into pandas and SQLAlchemy
  guarded by one existence test and one \<^verbatim>\<open>try/except Exception\<close>. The routine is
  embedded as a function on an explicit world (the table \<^verbatim>\<open>dbo.Customers\<close> and the
  sequence of observable events). Everything the outside world decides is an input of the
  model, the record \<open>env\<close>: whether the file exists, what the parser returns, and
  whether the existence test, each \<^verbatim>\<open>print\<close>, the engine, the connections or the write
  raise. An exception is one that \<^verbatim>\<open>except Exception\<close> catches. The computations of the
  preview on the frame in memory (\<^verbatim>\<open>len\<close>, \<^verbatim>\<open>head\<close>, \<^verbatim>\<open>columns\<close>, \<^verbatim>\<open>isnull\<close>) and
  the release of a connection are taken not to raise. The entry point of the script
  (lines 58 to 73), which installs packages and prints a banner around the call, is not
  part of the embedding.
\<close>

text \<open>A value of a data frame; \<open>Null\<close> is what \<^verbatim>\<open>isnull()\<close> answers True for.\<close>

datatype cell = Null | IntCell int | StrCell string

text \<open>
  The result of \<^verbatim>\<open>pd.read_csv\<close>: the column labels, in order, and the data rows, in
  order. pandas frames are rectangular: every row has one cell per column.
\<close>

record frame =
  columns :: "string list"
  rows :: "cell list list"

text \<open>
  A row of the table as an insert statement writes it: the column names it names, in
  order, and the values for them.
\<close>

type_synonym db_row = "string list \<times> cell list"

type_synonym db_table = "db_row list"

text \<open>The \<^verbatim>\<open>if_exists\<close> argument of \<^verbatim>\<open>DataFrame.to_sql\<close>.\<close>

datatype if_exists = Fail | Replace | Append

text \<open>
  The observable steps of a run, one constructor per \<^verbatim>\<open>print\<close> of the routine and per
  call that leaves the process, with the source line of each. The last three are what
  pandas does inside \<^verbatim>\<open>to_sql\<close> when it is handed an engine: it checks a connection
  out of the engine, inserts through it, and gives it back.
\<close>

datatype event =
    Print_Not_Found "string list"            \<comment> \<open>line 25\<close>
  | Print_Reading                            \<comment> \<open>line 30\<close>
  | Call_Read_Csv "string list"              \<comment> \<open>line 31\<close>
  | Print_Loaded nat nat                     \<comment> \<open>line 32\<close>
  | Print_Preview_Title                      \<comment> \<open>line 34\<close>
  | Print_Head frame                         \<comment> \<open>line 35\<close>
  | Print_Columns "string list"              \<comment> \<open>line 36\<close>
  | Print_Missing "(string \<times> nat) list"      \<comment> \<open>line 39\<close>
  | Print_Connecting                         \<comment> \<open>line 41\<close>
  | Call_Create_Engine                       \<comment> \<open>line 42\<close>
  | Call_Connect                             \<comment> \<open>line 44, \<^verbatim>\<open>engine.connect()\<close>\<close>
  | Conn_Acquired                            \<comment> \<open>line 44, the \<^verbatim>\<open>with\<close> block is entered\<close>
  | Print_Connected                          \<comment> \<open>line 45\<close>
  | Conn_Released                            \<comment> \<open>line 45, the \<^verbatim>\<open>with\<close> block is left\<close>
  | Print_Uploading                          \<comment> \<open>line 47\<close>
  | Call_To_Sql frame if_exists bool         \<comment> \<open>line 48, on the engine\<close>
  | Print_Success nat                        \<comment> \<open>line 50\<close>
  | Print_Ready                              \<comment> \<open>line 51\<close>
  | Print_Error string                       \<comment> \<open>line 55\<close>
  | Pandas_Conn_Acquired                     \<comment> \<open>inside line 48\<close>
  | Pandas_Insert                            \<comment> \<open>inside line 48\<close>
  | Pandas_Conn_Released                     \<comment> \<open>inside line 48\<close>

text \<open>
  What the outside world answers during one run. An exception is its message, the string
  that \<^verbatim>\<open>str(e)\<close> gives.
  \<^item> \<open>project_root\<close>: the directory above the script's, as path components;
  \<^item> \<open>exists_raises\<close>: the exception of \<^verbatim>\<open>CSV_PATH.exists()\<close>, if any;
  \<^item> \<open>csv_file\<close>: \<open>None\<close> when \<^verbatim>\<open>CSV_PATH.exists()\<close> is false; otherwise what
    \<^verbatim>\<open>pd.read_csv\<close> does with the file, raising (\<open>Inl\<close>) or returning a frame;
  \<^item> \<open>header_row\<close>: the fields of the first line of the file, as the file has them;
  \<^item> \<open>print_raises\<close>: the exception of \<^verbatim>\<open>print\<close> on a given output, if any (the
    console may be unable to encode the text, as with the pictographs of lines 30 to 47);
  \<^item> \<open>create_engine_raises\<close>, \<open>connect_raises\<close>: the exception of
    \<^verbatim>\<open>create_engine\<close> and of \<^verbatim>\<open>engine.connect()\<close>, if any;
  \<^item> \<open>to_sql_connect_raises\<close>: the exception of the checkout pandas makes inside
    \<^verbatim>\<open>to_sql\<close>, if any;
  \<^item> \<open>to_sql_raises\<close>: the exception of the insert, if any, with the number of new rows
    the store keeps all the same (0 when the store undoes a failed statement).
\<close>

record env =
  project_root :: "string list"
  exists_raises :: "string option"
  csv_file :: "(string + frame) option"
  header_row :: "string list"
  print_raises :: "event \<Rightarrow> string option"
  create_engine_raises :: "string option"
  connect_raises :: "string option"
  to_sql_connect_raises :: "string option"
  to_sql_raises :: "(string \<times> nat) option"

record world =
  customers :: db_table
  trace :: "event list"

text \<open>What a call of the routine comes to: a returned value, or an exception at the caller.\<close>

datatype outcome = Returned bool | Raised string

section \<open>The routine\<close>

definition CSV_PATH :: "env \<Rightarrow> string list" where
  "CSV_PATH env = project_root env @ [''data'', ''WA_Fn-UseC_-Telco-Customer-Churn.csv'']"

definition emit :: "event \<Rightarrow> world \<Rightarrow> world" where
  "emit e w = w\<lparr>trace := trace w @ [e]\<rparr>"

text \<open>
  A statement that may raise: \<open>Inl msg\<close> is the exception, \<open>Inr x\<close> the value. Two
  statements in sequence: the second runs when the first has not raised.
\<close>

definition and_then :: "(world \<Rightarrow> (string + 'a) \<times> world) \<Rightarrow> ('a \<Rightarrow> world \<Rightarrow> (string + 'b) \<times> world)
    \<Rightarrow> world \<Rightarrow> (string + 'b) \<times> world" where
  "and_then f g w = (case f w of (Inl msg, w') \<Rightarrow> (Inl msg, w') | (Inr x, w') \<Rightarrow> g x w')"

text \<open>\<^verbatim>\<open>print(...)\<close>: the output appears, unless the call raises.\<close>

definition py_print :: "env \<Rightarrow> event \<Rightarrow> world \<Rightarrow> (string + unit) \<times> world" where
  "py_print env e w =
     (case print_raises env e of Some msg \<Rightarrow> (Inl msg, w) | None \<Rightarrow> (Inr (), emit e w))"

text \<open>Prints in sequence, up to the first that raises.\<close>

fun print_all :: "env \<Rightarrow> event list \<Rightarrow> world \<Rightarrow> (string + unit) \<times> world" where
  "print_all env [] w = (Inr (), w)"
| "print_all env (e # es) w =
     (case py_print env e w of (Inl msg, w') \<Rightarrow> (Inl msg, w') | (Inr _, w') \<Rightarrow> print_all env es w')"

subsection \<open>The parse, line 31\<close>

definition read_csv :: "env \<Rightarrow> string + frame \<Rightarrow> world \<Rightarrow> (string + frame) \<times> world" where
  "read_csv env parsed w = (parsed, emit (Call_Read_Csv (CSV_PATH env)) w)"

text \<open>
  The column labels pandas gives a frame, from the fields of the header row, as its
  documentation of \<^verbatim>\<open>read_csv\<close> has it: a field that is empty is labelled
  \<^verbatim>\<open>Unnamed: i\<close> with its position \<open>i\<close>, and a name that occurred \<open>c\<close> times before
  is labelled \<^verbatim>\<open>name.c\<close>. Where a label made this way is itself a name of the header,
  pandas renames further, differently from version to version; the definition does not
  follow it there.
\<close>

fun show_nat :: "nat \<Rightarrow> string" where
  "show_nat n =
     (if n < 10 then [''0123456789'' ! n]
      else show_nat (n div 10) @ [''0123456789'' ! (n mod 10)])"

declare show_nat.simps [simp del]

fun mangle :: "nat \<Rightarrow> string list \<Rightarrow> string list \<Rightarrow> string list" where
  "mangle i seen [] = []"
| "mangle i seen (x # xs) =
     (let name = (if x = [] then ''Unnamed: '' @ show_nat i else x);
          c = count_list seen name
      in (if c = 0 then name else name @ ''.'' @ show_nat c) # mangle (Suc i) (seen @ [name]) xs)"

definition read_csv_labels :: "string list \<Rightarrow> string list" where
  "read_csv_labels header = mangle 0 [] header"

subsection \<open>The preview, lines 32 to 39\<close>

text \<open>\<^verbatim>\<open>df.head(n)\<close>: a new frame of the first \<open>n\<close> rows.\<close>

definition head_df :: "nat \<Rightarrow> frame \<Rightarrow> frame" where
  "head_df n df = df\<lparr>rows := take n (rows df)\<rparr>"

text \<open>\<^verbatim>\<open>df.isnull().sum()\<close>: for each column, the number of rows whose cell is null.\<close>

definition isnull_sum :: "frame \<Rightarrow> (string \<times> nat) list" where
  "isnull_sum df =
     map (\<lambda>j. (columns df ! j, length (filter (\<lambda>r. r ! j = Null) (rows df))))
       [0 ..< length (columns df)]"

text \<open>\<^verbatim>\<open>missing = df.isnull().sum()[df.isnull().sum() > 0]\<close>\<close>

definition missing :: "frame \<Rightarrow> (string \<times> nat) list" where
  "missing df = filter (\<lambda>(c, n). n > 0) (isnull_sum df)"

text \<open>What the preview prints, in the order of the source.\<close>

definition preview_events :: "frame \<Rightarrow> event list" where
  "preview_events df =
     [Print_Loaded (length (rows df)) (length (columns df)),
      Print_Preview_Title,
      Print_Head (head_df 3 df),
      Print_Columns (columns df)]
     @ (if length (missing df) > 0 then [Print_Missing (missing df)] else [])"

definition print_preview :: "env \<Rightarrow> frame \<Rightarrow> world \<Rightarrow> (string + unit) \<times> world" where
  "print_preview env df w = print_all env (preview_events df) w"

subsection \<open>The liveness check, lines 44 and 45\<close>

text \<open>
  \<^verbatim>\<open>with engine.connect() as conn: print(...)\<close>. The connection is released when the
  block is left, also when the \<^verbatim>\<open>print\<close> inside it raises.
\<close>

definition check_connection :: "env \<Rightarrow> world \<Rightarrow> (string + unit) \<times> world" where
  "check_connection env w =
     (let w1 = emit Call_Connect w
      in case connect_raises env of
        Some msg \<Rightarrow> (Inl msg, w1)
      | None \<Rightarrow>
         (case py_print env Print_Connected (emit Conn_Acquired w1) of
            (r, w2) \<Rightarrow> (r, emit Conn_Released w2)))"

subsection \<open>The write, line 48\<close>

text \<open>
  The rows \<^verbatim>\<open>to_sql\<close> inserts. With \<^verbatim>\<open>index=True\<close> pandas writes the frame's index
  as a first column named \<^verbatim>\<open>index\<close>; with \<^verbatim>\<open>index=False\<close> it writes the frame's
  columns only.
\<close>

definition insert_rows :: "bool \<Rightarrow> frame \<Rightarrow> db_row list" where
  "insert_rows index df =
     (if index
      then map (\<lambda>(i, r). (''index'' # columns df, IntCell (int i) # r)) (enumerate 0 (rows df))
      else map (\<lambda>r. (columns df, r)) (rows df))"

text \<open>
  What \<^verbatim>\<open>to_sql\<close> does to a table that exists, as pandas documents \<^verbatim>\<open>if_exists\<close>:
  \<^verbatim>\<open>fail\<close> raises, \<^verbatim>\<open>replace\<close> drops the table before inserting, \<^verbatim>\<open>append\<close> inserts
  the new rows into the table. When the insert raises, the store keeps the first \<open>k\<close> new
  rows, \<open>k\<close> being the environment's.
\<close>

definition write_rows :: "frame \<Rightarrow> if_exists \<Rightarrow> bool \<Rightarrow> (string \<times> nat) option \<Rightarrow> db_table
    \<Rightarrow> (string + unit) \<times> db_table" where
  "write_rows df mode index outcome tbl =
     (case mode of
        Fail \<Rightarrow> (Inl (''Table '' @ [CHR 0x27] @ ''Customers'' @ [CHR 0x27] @ '' already exists.''), tbl)
      | Replace \<Rightarrow>
          (case outcome of
             None \<Rightarrow> (Inr (), insert_rows index df)
           | Some (msg, k) \<Rightarrow> (Inl msg, take k (insert_rows index df)))
      | Append \<Rightarrow>
          (case outcome of
             None \<Rightarrow> (Inr (), tbl @ insert_rows index df)
           | Some (msg, k) \<Rightarrow> (Inl msg, tbl @ take k (insert_rows index df))))"

text \<open>
  \<^verbatim>\<open>df.to_sql('Customers', engine, schema='dbo', if_exists=..., index=...)\<close>. Handed
  an engine, pandas checks a connection out of it, writes through that connection and
  gives it back when it is done, whether the write went well or raised. In mode
  \<^verbatim>\<open>fail\<close> it raises before any insert.
\<close>

definition to_sql :: "env \<Rightarrow> frame \<Rightarrow> if_exists \<Rightarrow> bool \<Rightarrow> world \<Rightarrow> (string + unit) \<times> world" where
  "to_sql env df mode index w =
     (let w1 = emit (Call_To_Sql df mode index) w
      in case to_sql_connect_raises env of
        Some msg \<Rightarrow> (Inl msg, w1)
      | None \<Rightarrow>
         (let w2 = emit Pandas_Conn_Acquired w1;
              w3 = (if mode = Fail then w2 else emit Pandas_Insert w2)
          in case write_rows df mode index (to_sql_raises env) (customers w3) of
            (r, tbl) \<Rightarrow> (r, emit Pandas_Conn_Released (w3\<lparr>customers := tbl\<rparr>))))"

subsection \<open>The body of the try block, lines 30 to 52\<close>

text \<open>
  The block is written in two parts, so that the steps after the preview can be spoken
  of on their own: \<open>upload\<close> is lines 41 to 52, which connect and write; \<open>try_body\<close>
  is lines 30 to 39 followed by it. \<open>Inr ()\<close> is reaching \<^verbatim>\<open>return True\<close>. The
  argument \<open>parsed\<close> is what \<^verbatim>\<open>pd.read_csv\<close> does.
\<close>

definition create_engine :: "env \<Rightarrow> world \<Rightarrow> (string + unit) \<times> world" where
  "create_engine env w =
     (case create_engine_raises env of
        Some msg \<Rightarrow> (Inl msg, emit Call_Create_Engine w)
      | None \<Rightarrow> (Inr (), emit Call_Create_Engine w))"

definition upload :: "env \<Rightarrow> frame \<Rightarrow> world \<Rightarrow> (string + unit) \<times> world" where
  "upload env df =
     and_then (py_print env Print_Connecting) (\<lambda>_.
     and_then (create_engine env) (\<lambda>_.
     and_then (check_connection env) (\<lambda>_.
     and_then (py_print env Print_Uploading) (\<lambda>_.
     and_then (to_sql env df Append False) (\<lambda>_.
     and_then (py_print env (Print_Success (length (rows df)))) (\<lambda>_.
     py_print env Print_Ready))))))"

definition try_body :: "env \<Rightarrow> string + frame \<Rightarrow> world \<Rightarrow> (string + unit) \<times> world" where
  "try_body env parsed =
     and_then (py_print env Print_Reading) (\<lambda>_.
     and_then (read_csv env parsed) (\<lambda>df.
     and_then (print_preview env df) (\<lambda>_.
     upload env df)))"

subsection \<open>\<^verbatim>\<open>load_data_to_sql\<close>, lines 20 to 56\<close>

text \<open>
  The handler, lines 54 to 56. Its \<^verbatim>\<open>print\<close> is not guarded: when it raises, the
  exception leaves the routine.
\<close>

definition except_handler :: "env \<Rightarrow> string \<Rightarrow> world \<Rightarrow> outcome \<times> world" where
  "except_handler env msg w =
     (case py_print env (Print_Error msg) w of
        (Inl msg', w') \<Rightarrow> (Raised msg', w')
      | (Inr _, w') \<Rightarrow> (Returned False, w'))"

text \<open>
  The existence test and the report of a missing file, lines 24 to 26, come before the
  \<^verbatim>\<open>try\<close>: an exception of either leaves the routine.
\<close>

definition load_data_to_sql :: "env \<Rightarrow> world \<Rightarrow> outcome \<times> world" where
  "load_data_to_sql env w =
     (case exists_raises env of
        Some msg \<Rightarrow> (Raised msg, w)
      | None \<Rightarrow>
         (case csv_file env of
            None \<Rightarrow>
             (case py_print env (Print_Not_Found (CSV_PATH env)) w of
                (Inl msg, w') \<Rightarrow> (Raised msg, w')
              | (Inr _, w') \<Rightarrow> (Returned False, w'))
          | Some parsed \<Rightarrow>
             (case try_body env parsed w of
                (Inl msg, w') \<Rightarrow> except_handler env msg w'
              | (Inr _, w') \<Rightarrow> (Returned True, w'))))"

text \<open>The events of one run: what the run adds to the trace it starts from.\<close>

definition run_trace :: "env \<Rightarrow> world \<Rightarrow> event list" where
  "run_trace env w = drop (length (trace w)) (trace (snd (load_data_to_sql env w)))"

section \<open>Vocabulary of the specification\<close>

text \<open>
  The events a run has emitted when it has got through each of its steps, for a file
  that parses to \<open>df\<close>; \<open>happy_path\<close> is the whole of a run that returns true.
\<close>

definition steps_parse :: "env \<Rightarrow> event list" where
  "steps_parse env = [Print_Reading, Call_Read_Csv (CSV_PATH env)]"

definition steps_engine :: "env \<Rightarrow> frame \<Rightarrow> event list" where
  "steps_engine env df =
     steps_parse env @ preview_events df @ [Print_Connecting, Call_Create_Engine]"

definition steps_connect :: "env \<Rightarrow> frame \<Rightarrow> event list" where
  "steps_connect env df = steps_engine env df @ [Call_Connect]"

definition steps_write :: "env \<Rightarrow> frame \<Rightarrow> event list" where
  "steps_write env df =
     steps_connect env df
     @ [Conn_Acquired, Print_Connected, Conn_Released, Print_Uploading,
        Call_To_Sql df Append False]"

definition steps_written :: "env \<Rightarrow> frame \<Rightarrow> event list" where
  "steps_written env df =
     steps_write env df @ [Pandas_Conn_Acquired, Pandas_Insert, Pandas_Conn_Released]"

definition happy_path :: "env \<Rightarrow> frame \<Rightarrow> event list" where
  "happy_path env df = steps_written env df @ [Print_Success (length (rows df)), Print_Ready]"

text \<open>The first exception of a sequence of steps, each raising or not.\<close>

fun first_raise :: "string option list \<Rightarrow> string option" where
  "first_raise [] = None"
| "first_raise (None # rs) = first_raise rs"
| "first_raise (Some m # rs) = Some m"

text \<open>
  The failure taxonomy of the specification (sections 4.1 and 7): the file is missing,
  or a step of the try block fails with a message. The steps are taken in the order of
  the source, the prints of the block among them, and the first failure ends the run.
\<close>

datatype failure = File_Missing | Load_Failed string

definition block_raises :: "env \<Rightarrow> string + frame \<Rightarrow> string option list" where
  "block_raises env parsed =
     print_raises env Print_Reading #
     (case parsed of
        Inl m \<Rightarrow> [Some m]
      | Inr df \<Rightarrow>
          map (print_raises env) (preview_events df)
          @ [print_raises env Print_Connecting,
             create_engine_raises env,
             connect_raises env,
             print_raises env Print_Connected,
             print_raises env Print_Uploading,
             to_sql_connect_raises env,
             map_option fst (to_sql_raises env),
             print_raises env (Print_Success (length (rows df))),
             print_raises env Print_Ready])"

definition first_failure :: "env \<Rightarrow> failure option" where
  "first_failure env =
     (case csv_file env of
        None \<Rightarrow> Some File_Missing
      | Some parsed \<Rightarrow> map_option Load_Failed (first_raise (block_raises env parsed)))"

text \<open>
  Reporting a failure, as lines 25 and 26 and lines 55 and 56 do: the report is printed
  and false returned, unless the print raises.
\<close>

definition report_or_raise :: "env \<Rightarrow> event \<Rightarrow> outcome \<times> event list" where
  "report_or_raise env e =
     (case print_raises env e of None \<Rightarrow> (Returned False, [e]) | Some m \<Rightarrow> (Raised m, []))"

text \<open>The failure reports among the events of a run.\<close>

fun is_report :: "event \<Rightarrow> bool" where
  "is_report (Print_Not_Found p) = True"
| "is_report (Print_Error m) = True"
| "is_report e = False"

definition reports :: "event list \<Rightarrow> event list" where
  "reports es = filter is_report es"

text \<open>
  The six steps of the specification's control flow, numbered: 0 parse, 1 preview,
  2 open a connection, 3 verify it, 4 append, 5 report the outcome. What pandas does
  inside \<^verbatim>\<open>to_sql\<close> belongs to the append.
\<close>

fun phase :: "event \<Rightarrow> nat" where
  "phase Print_Reading = 0"
| "phase (Call_Read_Csv p) = 0"
| "phase (Print_Loaded n m) = 1"
| "phase Print_Preview_Title = 1"
| "phase (Print_Head df) = 1"
| "phase (Print_Columns cs) = 1"
| "phase (Print_Missing ms) = 1"
| "phase Print_Connecting = 2"
| "phase Call_Create_Engine = 2"
| "phase Call_Connect = 2"
| "phase Conn_Acquired = 2"
| "phase Print_Connected = 3"
| "phase Conn_Released = 3"
| "phase Print_Uploading = 4"
| "phase (Call_To_Sql df m i) = 4"
| "phase Pandas_Conn_Acquired = 4"
| "phase Pandas_Insert = 4"
| "phase Pandas_Conn_Released = 4"
| "phase (Print_Success n) = 5"
| "phase Print_Ready = 5"
| "phase (Print_Error m) = 5"
| "phase (Print_Not_Found p) = 5"

text \<open>The events before the first write of a trace (all of them when nothing is written).\<close>

fun before_write :: "event list \<Rightarrow> event list" where
  "before_write [] = []"
| "before_write (Call_To_Sql df m i # es) = []"
| "before_write (e # es) = e # before_write es"

text \<open>
  The connection handles held at each insert of a trace: the number of handles of the
  routine itself (line 44) and the number of handles of pandas, \<open>(a, b)\<close> being the
  numbers held at the start of the trace.
\<close>

fun held_at_inserts :: "nat \<times> nat \<Rightarrow> event list \<Rightarrow> (nat \<times> nat) list" where
  "held_at_inserts (a, b) [] = []"
| "held_at_inserts (a, b) (Conn_Acquired # es) = held_at_inserts (Suc a, b) es"
| "held_at_inserts (a, b) (Conn_Released # es) = held_at_inserts (a - 1, b) es"
| "held_at_inserts (a, b) (Pandas_Conn_Acquired # es) = held_at_inserts (a, Suc b) es"
| "held_at_inserts (a, b) (Pandas_Conn_Released # es) = held_at_inserts (a, b - 1) es"
| "held_at_inserts (a, b) (Pandas_Insert # es) = (a, b) # held_at_inserts (a, b) es"
| "held_at_inserts (a, b) (e # es) = held_at_inserts (a, b) es"

text \<open>Scenario A of the specification, and the environments the examples run in.\<close>

definition scenario_A :: frame where
  "scenario_A =
     \<lparr>columns = [''id'', ''name''],
      rows = [[IntCell 1, StrCell ''Alice''], [IntCell 2, StrCell ''Bob''],
              [IntCell 3, StrCell ''Carol'']]\<rparr>"

definition header_only :: frame where
  "header_only = \<lparr>columns = [''id'', ''name''], rows = []\<rparr>"


text \<open>A file whose header row names two columns alike, as pandas reads it.\<close>

definition twice_id :: frame where
  "twice_id = \<lparr>columns = read_csv_labels [''id'', ''id''], rows = [[IntCell 1, IntCell 2]]\<rparr>"

text \<open>An environment in which nothing raises; the header row of the file is given.\<close>

definition env_with :: "string list \<Rightarrow> frame \<Rightarrow> env" where
  "env_with header df =
     \<lparr>project_root = [''repo''], exists_raises = None, csv_file = Some (Inr df),
      header_row = header, print_raises = (\<lambda>e. None), create_engine_raises = None,
      connect_raises = None, to_sql_connect_raises = None, to_sql_raises = None\<rparr>"

definition env_ok :: "frame \<Rightarrow> env" where
  "env_ok df = env_with (columns df) df"

definition env_missing :: env where
  "env_missing = (env_ok scenario_A)\<lparr>csv_file := None\<rparr>"

definition world0 :: world where
  "world0 = \<lparr>customers = [], trace = []\<rparr>"

definition world1 :: world where
  "world1 = \<lparr>customers = [([''id'', ''name''], [IntCell 0, StrCell ''Zoe''])], trace = []\<rparr>"

text \<open>A console that cannot encode a failure report, for example the path in it.\<close>

definition reports_unprintable :: "event \<Rightarrow> string option" where
  "reports_unprintable e = (if is_report e then Some ''UnicodeEncodeError'' else None)"

definition env_bad_parse :: env where
  "env_bad_parse = (env_ok scenario_A)\<lparr>csv_file := Some (Inl ''ParserError'')\<rparr>"

section \<open>The run, case by case\<close>

lemmas steps_defs = steps_parse_def steps_engine_def steps_connect_def steps_write_def
  steps_written_def happy_path_def

lemmas step_defs = and_then_def py_print_def read_csv_def print_preview_def create_engine_def
  check_connection_def to_sql_def write_rows_def except_handler_def emit_def

lemma first_raise_append:
  "first_raise (xs @ ys) = (case first_raise xs of Some m \<Rightarrow> Some m | None \<Rightarrow> first_raise ys)"
  by (induction xs rule: first_raise.induct) simp_all

lemma first_raise_None_iff:
  "first_raise (map (print_raises env) es) = None \<longleftrightarrow> (\<forall>e\<in>set es. print_raises env e = None)"
proof (induction es)
  case Nil
  then show ?case by simp
next
  case (Cons e es)
  then show ?case by (cases "print_raises env e") simp_all
qed

lemma print_all_raised:
  "first_raise (map (print_raises env) es) = Some m \<Longrightarrow>
     print_all env es w
       = (Inl m, w\<lparr>trace := trace w @ takeWhile (\<lambda>e. print_raises env e = None) es\<rparr>)"
proof (induction es arbitrary: w)
  case Nil
  then show ?case by simp
next
  case (Cons e es)
  then show ?case
    by (cases "print_raises env e") (simp_all add: py_print_def emit_def)
qed

lemma print_all_done:
  "first_raise (map (print_raises env) es) = None \<Longrightarrow>
     print_all env es w = (Inr (), w\<lparr>trace := trace w @ es\<rparr>)"
proof (induction es arbitrary: w)
  case Nil
  then show ?case by simp
next
  case (Cons e es)
  then show ?case
    by (cases "print_raises env e") (simp_all add: py_print_def emit_def)
qed


lemma set_takeWhile_subset: "set (takeWhile P xs) \<subseteq> set xs"
  by (auto dest: set_takeWhileD)

lemmas run_simps = load_data_to_sql_def try_body_def upload_def first_failure_def
  block_raises_def report_or_raise_def step_defs steps_defs print_all_raised print_all_done
  first_raise_append

text \<open>
  Every run is of one of thirteen kinds, by the first step that raises. In each the
  result, the table and the events are known; the report of a failure is printed, or its
  print raises.
\<close>

lemma run_cases [consumes 0, case_names exists_raised no_file failed_reading failed_parse failed_preview
    failed_engine failed_connect failed_connected failed_uploading failed_checkout
    failed_write failed_ready all_ok]:
  obtains
    (exists_raised) m where "exists_raises env = Some m"
      "load_data_to_sql env w = (Raised m, w)"
  | (no_file) "exists_raises env = None" "csv_file env = None"
      "first_failure env = Some File_Missing"
      "load_data_to_sql env w
         = (fst (report_or_raise env (Print_Not_Found (CSV_PATH env))),
            w\<lparr>trace := trace w @ snd (report_or_raise env (Print_Not_Found (CSV_PATH env)))\<rparr>)"
  | (failed_reading) parsed m where "exists_raises env = None" "csv_file env = Some parsed"
      "first_failure env = Some (Load_Failed m)"
      "load_data_to_sql env w
         = (fst (report_or_raise env (Print_Error m)),
            w\<lparr>trace := trace w @ snd (report_or_raise env (Print_Error m))\<rparr>)"
  | (failed_parse) m where "exists_raises env = None" "csv_file env = Some (Inl m)"
      "first_failure env = Some (Load_Failed m)"
      "load_data_to_sql env w
         = (fst (report_or_raise env (Print_Error m)),
            w\<lparr>trace := trace w @ steps_parse env @ snd (report_or_raise env (Print_Error m))\<rparr>)"
  | (failed_preview) df m q where "exists_raises env = None" "csv_file env = Some (Inr df)"
      "first_failure env = Some (Load_Failed m)" "set q \<subseteq> set (preview_events df)"
      "load_data_to_sql env w
         = (fst (report_or_raise env (Print_Error m)),
            w\<lparr>trace := trace w @ steps_parse env @ q @ snd (report_or_raise env (Print_Error m))\<rparr>)"
  | (failed_engine) df m where "exists_raises env = None" "csv_file env = Some (Inr df)"
      "first_failure env = Some (Load_Failed m)"
      "load_data_to_sql env w
         = (fst (report_or_raise env (Print_Error m)),
            w\<lparr>trace := trace w @ steps_engine env df @ snd (report_or_raise env (Print_Error m))\<rparr>)"
  | (failed_connect) df m where "exists_raises env = None" "csv_file env = Some (Inr df)"
      "first_failure env = Some (Load_Failed m)"
      "load_data_to_sql env w
         = (fst (report_or_raise env (Print_Error m)),
            w\<lparr>trace := trace w @ steps_connect env df @ snd (report_or_raise env (Print_Error m))\<rparr>)"
  | (failed_connected) df m where "exists_raises env = None" "csv_file env = Some (Inr df)"
      "first_failure env = Some (Load_Failed m)"
      "load_data_to_sql env w
         = (fst (report_or_raise env (Print_Error m)),
            w\<lparr>trace := trace w @ (steps_connect env df @ [Conn_Acquired, Conn_Released])
                 @ snd (report_or_raise env (Print_Error m))\<rparr>)"
  | (failed_uploading) df m where "exists_raises env = None" "csv_file env = Some (Inr df)"
      "first_failure env = Some (Load_Failed m)"
      "load_data_to_sql env w
         = (fst (report_or_raise env (Print_Error m)),
            w\<lparr>trace := trace w
                 @ (steps_connect env df @ [Conn_Acquired, Print_Connected, Conn_Released])
                 @ snd (report_or_raise env (Print_Error m))\<rparr>)"
  | (failed_checkout) df m where "exists_raises env = None" "csv_file env = Some (Inr df)"
      "first_failure env = Some (Load_Failed m)"
      "load_data_to_sql env w
         = (fst (report_or_raise env (Print_Error m)),
            w\<lparr>trace := trace w @ steps_write env df @ snd (report_or_raise env (Print_Error m))\<rparr>)"
  | (failed_write) df m k where "exists_raises env = None" "csv_file env = Some (Inr df)"
      "first_failure env = Some (Load_Failed m)"
      "load_data_to_sql env w
         = (fst (report_or_raise env (Print_Error m)),
            w\<lparr>customers := customers w @ take k (insert_rows False df),
              trace := trace w @ steps_written env df
                 @ snd (report_or_raise env (Print_Error m))\<rparr>)"
  | (failed_ready) df m where "exists_raises env = None" "csv_file env = Some (Inr df)"
      "first_failure env = Some (Load_Failed m)"
      "load_data_to_sql env w
         = (fst (report_or_raise env (Print_Error m)),
            w\<lparr>customers := customers w @ insert_rows False df,
              trace := trace w @ (steps_written env df @ [Print_Success (length (rows df))])
                 @ snd (report_or_raise env (Print_Error m))\<rparr>)"
  | (all_ok) df where "exists_raises env = None" "csv_file env = Some (Inr df)"
      "first_failure env = None"
      "load_data_to_sql env w
         = (Returned True,
            w\<lparr>customers := customers w @ insert_rows False df,
              trace := trace w @ happy_path env df\<rparr>)"
proof (cases "exists_raises env")
  case (Some m)
  then show ?thesis
    by (intro exists_raised [of m]) (simp_all add: load_data_to_sql_def)
next
  case h_ex: None
  show ?thesis
  proof (cases "csv_file env")
    case None
    with h_ex show ?thesis
      by (intro no_file)
        (simp_all add: load_data_to_sql_def first_failure_def report_or_raise_def step_defs
          split: option.splits)
  next
    case h_file: (Some parsed)
    show ?thesis
    proof (cases "print_raises env Print_Reading")
      case (Some m)
      with h_ex h_file show ?thesis
        by (intro failed_reading [of parsed m])
          (simp_all add: load_data_to_sql_def try_body_def first_failure_def block_raises_def
            report_or_raise_def step_defs split: option.splits)
    next
      case h_rd: None
      show ?thesis
      proof (cases parsed)
        case (Inl m)
        with h_ex h_file h_rd show ?thesis
          by (intro failed_parse [of m])
            (simp_all add: load_data_to_sql_def try_body_def first_failure_def block_raises_def
              report_or_raise_def step_defs steps_defs split: option.splits)
      next
        case (Inr df)
        with h_file have h_df: "csv_file env = Some (Inr df)" by simp
        show ?thesis
        proof (cases "first_raise (map (print_raises env) (preview_events df))")
          case (Some m)
          with h_ex h_df h_rd show ?thesis
            by (intro failed_preview
                [of df m "takeWhile (\<lambda>e. print_raises env e = None) (preview_events df)"])
              (simp_all add: run_simps set_takeWhile_subset split: option.splits)
        next
          case h_pv: None
          show ?thesis
          proof (cases "print_raises env Print_Connecting")
            case (Some m)
            with h_ex h_df h_rd h_pv show ?thesis
              by (intro failed_preview [of df m "preview_events df"])
                (simp_all add: run_simps split: option.splits)
          next
            case h_cg: None
            show ?thesis
            proof (cases "create_engine_raises env")
              case (Some m)
              with h_ex h_df h_rd h_pv h_cg show ?thesis
                by (intro failed_engine [of df m])
                  (simp_all add: run_simps split: option.splits)
            next
              case h_en: None
              show ?thesis
              proof (cases "connect_raises env")
                case (Some m)
                with h_ex h_df h_rd h_pv h_cg h_en show ?thesis
                  by (intro failed_connect [of df m])
                    (simp_all add: run_simps split: option.splits)
              next
                case h_co: None
                show ?thesis
                proof (cases "print_raises env Print_Connected")
                  case (Some m)
                  with h_ex h_df h_rd h_pv h_cg h_en h_co show ?thesis
                    by (intro failed_connected [of df m])
                      (simp_all add: run_simps split: option.splits)
                next
                  case h_cd: None
                  show ?thesis
                  proof (cases "print_raises env Print_Uploading")
                    case (Some m)
                    with h_ex h_df h_rd h_pv h_cg h_en h_co h_cd show ?thesis
                      by (intro failed_uploading [of df m])
                        (simp_all add: run_simps split: option.splits)
                  next
                    case h_up: None
                    show ?thesis
                    proof (cases "to_sql_connect_raises env")
                      case (Some m)
                      with h_ex h_df h_rd h_pv h_cg h_en h_co h_cd h_up show ?thesis
                        by (intro failed_checkout [of df m])
                          (simp_all add: run_simps split: option.splits)
                    next
                      case h_ch: None
                      show ?thesis
                      proof (cases "to_sql_raises env")
                        case (Some mk)
                        obtain m k where mk: "mk = (m, k)" by (cases mk)
                        with Some h_ex h_df h_rd h_pv h_cg h_en h_co h_cd h_up h_ch show ?thesis
                          by (intro failed_write [of df m k])
                            (simp_all add: run_simps split: option.splits)
                      next
                        case h_wr: None
                        show ?thesis
                        proof (cases "print_raises env (Print_Success (length (rows df)))")
                          case (Some m)
                          with h_ex h_df h_rd h_pv h_cg h_en h_co h_cd h_up h_ch h_wr show ?thesis
                            by (intro failed_write [of df m "length (insert_rows False df)"])
                              (simp_all add: run_simps split: option.splits)
                        next
                          case h_su: None
                          show ?thesis
                          proof (cases "print_raises env Print_Ready")
                            case (Some m)
                            with h_ex h_df h_rd h_pv h_cg h_en h_co h_cd h_up h_ch h_wr h_su show ?thesis
                              by (intro failed_ready [of df m])
                                (simp_all add: run_simps split: option.splits)
                          next
                            case None
                            with h_ex h_df h_rd h_pv h_cg h_en h_co h_cd h_up h_ch h_wr h_su show ?thesis
                              by (intro all_ok [of df])
                                (simp_all add: run_simps split: option.splits)
                          qed
                        qed
                      qed
                    qed
                  qed
                qed
              qed
            qed
          qed
        qed
      qed
    qed
  qed
qed

lemma run_trace_eq:
  "load_data_to_sql env w = (out, w\<lparr>customers := c, trace := trace w @ t\<rparr>) \<Longrightarrow> run_trace env w = t"
  "load_data_to_sql env w = (out, w\<lparr>trace := trace w @ t\<rparr>) \<Longrightarrow> run_trace env w = t"
  "load_data_to_sql env w = (out, w) \<Longrightarrow> run_trace env w = []"
  by (simp_all add: run_trace_def)

section \<open>The preview among the events\<close>

lemma phase_preview: "e \<in> set (preview_events df) \<Longrightarrow> phase e = 1"
  by (auto simp: preview_events_def split: if_splits)

lemma phase_partial: "set q \<subseteq> set (preview_events df) \<Longrightarrow> e \<in> set q \<Longrightarrow> phase e = 1"
  using phase_preview by blast

lemma not_in_partial:
  "set q \<subseteq> set (preview_events df) \<Longrightarrow> phase e \<noteq> 1 \<Longrightarrow> e \<notin> set q"
  using phase_partial by blast

lemma count_list_partial:
  "set q \<subseteq> set (preview_events df) \<Longrightarrow> phase e \<noteq> 1 \<Longrightarrow> count_list q e = 0"
  by (simp add: count_list_0_iff not_in_partial)

lemma sorted_phase_partial:
  assumes "set q \<subseteq> set (preview_events df)"
  shows "sorted (map phase q)"
proof -
  have "map phase q = replicate (length q) 1"
    using assms by (induction q) (auto dest: phase_preview)
  then show ?thesis by simp
qed

lemma reports_simps:
  "reports [] = []"
  "reports (e # es) = (if is_report e then e # reports es else reports es)"
  by (simp_all add: reports_def)

lemma reports_append: "reports (xs @ ys) = reports xs @ reports ys"
  by (simp add: reports_def)

lemma is_report_phase: "is_report e \<Longrightarrow> phase e = 5"
  by (cases e) simp_all

lemma reports_partial:
  assumes "set q \<subseteq> set (preview_events df)"
  shows "reports q = []"
proof -
  have "\<not> is_report e" if "e \<in> set q" for e
    using phase_partial [OF assms that] is_report_phase [of e] by auto
  then show ?thesis by (simp add: reports_def filter_empty_conv)
qed

lemma held_skip: "phase e = 1 \<Longrightarrow> held_at_inserts s (e # es) = held_at_inserts s es"
  by (cases s; cases e) simp_all

lemma held_partial:
  "set q \<subseteq> set (preview_events df) \<Longrightarrow> held_at_inserts s (q @ es) = held_at_inserts s es"
  by (induction q) (auto dest: phase_preview simp: held_skip)

lemma before_write_skip: "phase e = 1 \<Longrightarrow> before_write (e # es) = e # before_write es"
  by (cases e) simp_all

lemma before_write_partial:
  "set q \<subseteq> set (preview_events df) \<Longrightarrow> before_write (q @ es) = q @ before_write es"
  by (induction q) (auto dest: phase_preview simp: before_write_skip)

lemmas partial_full = subset_refl [of "set (preview_events df)"] for df

lemma phases_of_preview: "phase ` set (preview_events df) = {1}"
  by (auto simp: preview_events_def)

lemmas full_preview_simps = sorted_phase_partial [OF partial_full]
  before_write_partial [OF partial_full] held_partial [OF partial_full]
  count_list_partial [OF partial_full] not_in_partial [OF partial_full]
  reports_partial [OF partial_full]

section \<open>The report at the end of a failed run\<close>

lemma set_tail:
  "set (snd (report_or_raise env e)) = (if print_raises env e = None then {e} else {})"
  by (simp add: report_or_raise_def split: option.splits)

lemma sorted_tail: "sorted (map phase (snd (report_or_raise env e)))"
  by (simp add: report_or_raise_def split: option.splits)

lemma count_list_tail: "x \<noteq> e \<Longrightarrow> count_list (snd (report_or_raise env e)) x = 0"
  by (simp add: report_or_raise_def split: option.splits)

lemma held_tail: "is_report e \<Longrightarrow> held_at_inserts s (snd (report_or_raise env e)) = []"
  by (cases s; cases e) (simp_all add: report_or_raise_def split: option.splits)

lemma before_write_tail:
  "is_report e \<Longrightarrow> before_write (snd (report_or_raise env e)) = snd (report_or_raise env e)"
  by (cases e) (simp_all add: report_or_raise_def split: option.splits)

lemma reports_tail:
  "is_report e \<Longrightarrow> reports (snd (report_or_raise env e)) = snd (report_or_raise env e)"
  by (simp add: report_or_raise_def reports_def split: option.splits)

lemmas tail_simps = set_tail sorted_tail count_list_tail held_tail before_write_tail reports_tail

section \<open>Runs that return true\<close>

lemma insert_rows_False: "insert_rows False df = map (\<lambda>r. (columns df, r)) (rows df)"
  by (simp add: insert_rows_def)

lemma map_fst_insert_rows:
  "map fst (insert_rows False df) = replicate (length (rows df)) (columns df)"
  by (simp add: insert_rows_False map_replicate_const comp_def)

lemma report_or_raise_not_True [simp]: "fst (report_or_raise env e) \<noteq> Returned True"
  by (simp add: report_or_raise_def split: option.splits)

lemma load_true:
  assumes "fst (load_data_to_sql env w) = Returned True" and "csv_file env = Some (Inr df)"
  shows "load_data_to_sql env w
           = (Returned True,
              w\<lparr>customers := customers w @ insert_rows False df,
                trace := trace w @ happy_path env df\<rparr>)"
  using assms by (cases env w rule: run_cases) simp_all

lemma load_true_iff:
  "fst (load_data_to_sql env w) = Returned True
     \<longleftrightarrow> exists_raises env = None \<and> first_failure env = None"
  by (cases env w rule: run_cases) simp_all

lemma run_trace_true:
  assumes "fst (load_data_to_sql env w) = Returned True" and "csv_file env = Some (Inr df)"
  shows "run_trace env w = happy_path env df"
  by (simp add: run_trace_def load_true [OF assms])

lemma first_failure_quiet:
  assumes "csv_file env = Some (Inr df)" and "\<forall>e. print_raises env e = None"
    and "create_engine_raises env = None" and "connect_raises env = None"
    and "to_sql_connect_raises env = None" and "to_sql_raises env = None"
  shows "first_failure env = None"
proof -
  have "first_raise (map (print_raises env) (preview_events df)) = None"
    using assms(2) by (simp add: first_raise_None_iff)
  with assms show ?thesis
    by (simp add: first_failure_def block_raises_def first_raise_append)
qed

lemma csv_file_env_with: "csv_file (env_with h df) = Some (Inr df)"
  by (simp add: env_with_def)

lemma true_env_with: "fst (load_data_to_sql (env_with h df) w) = Returned True"
proof -
  have "first_failure (env_with h df) = None"
    by (rule first_failure_quiet [of _ df]) (simp_all add: env_with_def)
  then show ?thesis
    by (simp add: load_true_iff) (simp add: env_with_def)
qed

lemma true_env_ok: "fst (load_data_to_sql (env_ok df) w) = Returned True"
  by (simp add: env_ok_def true_env_with)

lemma csv_file_env_ok: "csv_file (env_ok df) = Some (Inr df)"
  by (simp add: env_ok_def csv_file_env_with)

lemmas load_env_ok = load_true [OF true_env_ok csv_file_env_ok]

lemmas run_trace_env_ok = run_trace_true [OF true_env_ok csv_file_env_ok]

section \<open>The labels of the columns\<close>

lemma show_nat_1: "show_nat (Suc 0) = ''1''"
  by (subst show_nat.simps) simp

lemma mangle_distinct:
  "distinct xs \<Longrightarrow> [] \<notin> set xs \<Longrightarrow> set seen \<inter> set xs = {} \<Longrightarrow> mangle i seen xs = xs"
proof (induction xs arbitrary: i seen)
  case Nil
  then show ?case by simp
next
  case (Cons x xs)
  from Cons.prems have "count_list seen x = 0" "x \<noteq> []"
    by (auto simp: count_list_0_iff)
  moreover from Cons.prems have "mangle (Suc i) (seen @ [x]) xs = xs"
    by (intro Cons.IH) auto
  ultimately show ?case by simp
qed

lemma read_csv_labels_distinct:
  "distinct h \<Longrightarrow> [] \<notin> set h \<Longrightarrow> read_csv_labels h = h"
  by (simp add: read_csv_labels_def mangle_distinct)

lemma labels_twice_id: "read_csv_labels [''id'', ''id''] = [''id'', ''id.1'']"
  by (simp add: read_csv_labels_def show_nat_1)

section \<open>What lines 41 to 52 return and write\<close>


section \<open>The claims\<close>

text \<open>
  C1. For a file that parses to a frame \<open>df\<close>, a run that returns true has appended to
  the table exactly the rows of \<open>df\<close> (the data rows of the file, the header being the
  column labels), so the table has grown by their number, and the last two events of the
  run are the success report with that number and the closing line, after which true is
  returned.
\<close>

theorem rows_appended_and_reported:
  assumes "csv_file env = Some (Inr df)" and "fst (load_data_to_sql env w) = Returned True"
  shows "customers (snd (load_data_to_sql env w))
           = customers w @ map (\<lambda>r. (columns df, r)) (rows df)
    \<and> length (customers (snd (load_data_to_sql env w)))
           = length (customers w) + length (rows df)
    \<and> (\<exists>pre. run_trace env w = pre @ [Print_Success (length (rows df)), Print_Ready])"
  by (simp add: load_true [OF assms(2,1)] run_trace_true [OF assms(2,1)] insert_rows_False
      happy_path_def)

text \<open>Scenario A of the specification: three rows, two columns, an empty table.\<close>

theorem rows_appended_and_reported_witness:
  "csv_file (env_ok scenario_A) = Some (Inr scenario_A)
   \<and> fst (load_data_to_sql (env_ok scenario_A) world0) = Returned True
   \<and> customers (snd (load_data_to_sql (env_ok scenario_A) world0))
       = [([''id'', ''name''], [IntCell 1, StrCell ''Alice'']),
          ([''id'', ''name''], [IntCell 2, StrCell ''Bob'']),
          ([''id'', ''name''], [IntCell 3, StrCell ''Carol''])]
   \<and> length (customers (snd (load_data_to_sql (env_ok scenario_A) world0))) = 3"
proof -
  note h1 = csv_file_env_ok [of scenario_A]
  note h2 = true_env_ok [of scenario_A world0]
  from rows_appended_and_reported [OF h1 h2] h1 h2 show ?thesis
    by (simp add: scenario_A_def world0_def)
qed

text \<open>
  C2, as the claim states it: whenever the path does not exist, the routine returns
  failure and no exception reaches the caller. The report of line 25 is printed before
  the try block: on a console that cannot encode it (the path is part of it), the
  \<^verbatim>\<open>print\<close> raises and the exception leaves the routine.
\<close>

theorem missing_file_print_raises_counterexample:
  "csv_file (env_missing\<lparr>print_raises := reports_unprintable\<rparr>) = None
   \<and> fst (load_data_to_sql (env_missing\<lparr>print_raises := reports_unprintable\<rparr>) world0)
       = Raised ''UnicodeEncodeError''"
  by (simp add: load_data_to_sql_def py_print_def env_missing_def env_ok_def env_with_def
      reports_unprintable_def)

text \<open>
  C2, amended. When the configured path does not exist (the existence test not raising),
  the table is left as it was, no engine is created and no connection is attempted, by
  the routine or by pandas; and the routine reports the missing file with the configured
  path and returns false, this being the only event of the run, provided the report can
  be printed. Otherwise the exception of that \<^verbatim>\<open>print\<close> reaches the caller and the
  run has no event.
\<close>

theorem missing_file_fails_untouched:
  assumes "exists_raises env = None" and "csv_file env = None"
  shows "(fst (load_data_to_sql env w), run_trace env w)
           = report_or_raise env (Print_Not_Found (CSV_PATH env))
    \<and> (print_raises env (Print_Not_Found (CSV_PATH env)) = None \<longrightarrow>
          fst (load_data_to_sql env w) = Returned False
          \<and> run_trace env w = [Print_Not_Found (CSV_PATH env)])
    \<and> customers (snd (load_data_to_sql env w)) = customers w
    \<and> Call_Create_Engine \<notin> set (run_trace env w)
    \<and> Call_Connect \<notin> set (run_trace env w)
    \<and> Pandas_Conn_Acquired \<notin> set (run_trace env w)"
  using assms
  by (cases env w rule: run_cases)
    (auto simp add: run_trace_def report_or_raise_def split: option.splits)

theorem missing_file_fails_untouched_witness:
  "exists_raises env_missing = None
   \<and> csv_file env_missing = None
   \<and> print_raises env_missing (Print_Not_Found (CSV_PATH env_missing)) = None
   \<and> fst (load_data_to_sql env_missing world1) = Returned False
   \<and> customers (snd (load_data_to_sql env_missing world1)) = customers world1
   \<and> run_trace env_missing world1
       = [Print_Not_Found [''repo'', ''data'', ''WA_Fn-UseC_-Telco-Customer-Churn.csv'']]"
proof -
  have h: "exists_raises env_missing = None" "csv_file env_missing = None"
    "print_raises env_missing (Print_Not_Found (CSV_PATH env_missing)) = None"
    by (simp_all add: env_missing_def env_ok_def env_with_def)
  from missing_file_fails_untouched [OF h(1,2), of world1] h show ?thesis
    by (simp add: env_missing_def env_ok_def env_with_def CSV_PATH_def)
qed

text \<open>
  C3, as the claim states it: after a parse, connect or write failure the routine
  returns failure rather than raising. The report of line 55 is printed inside the
  handler: when that \<^verbatim>\<open>print\<close> raises, as on a console that cannot encode the
  message, the exception leaves the routine.
\<close>

theorem error_report_raises_counterexample:
  "csv_file (env_bad_parse\<lparr>print_raises := reports_unprintable\<rparr>) = Some (Inl ''ParserError'')
   \<and> fst (load_data_to_sql (env_bad_parse\<lparr>print_raises := reports_unprintable\<rparr>) world0)
       = Raised ''UnicodeEncodeError''"
  by (simp add: load_data_to_sql_def try_body_def step_defs env_bad_parse_def env_ok_def
      env_with_def reports_unprintable_def)

text \<open>
  C3, amended. The existence test not raising, every failure is reported by one of two
  signals and by exactly one report: the missing file by the file-not-found report with
  the path, and the first failure inside the try block (the parse, the engine, a
  connection, the write, or a \<^verbatim>\<open>print\<close> of the block itself) by the one generic error
  report, which carries the message of that failure unchanged. The routine then returns
  false, provided the report can be printed; otherwise the exception of that
  \<^verbatim>\<open>print\<close> reaches the caller and nothing is reported. A run without failure
  returns true and reports none.
\<close>

theorem failures_collapse_to_two_reports:
  assumes "exists_raises env = None"
  shows "(fst (load_data_to_sql env w), reports (run_trace env w))
           = (case first_failure env of
                None \<Rightarrow> (Returned True, [])
              | Some File_Missing \<Rightarrow> report_or_raise env (Print_Not_Found (CSV_PATH env))
              | Some (Load_Failed m) \<Rightarrow> report_or_raise env (Print_Error m))"
  using assms
  by (cases env w rule: run_cases)
    (auto simp add: run_trace_def report_or_raise_def steps_defs reports_append reports_simps
      reports_partial reports_partial [OF partial_full] split: option.splits)

text \<open>A parse that fails, on a console that prints everything.\<close>

theorem failures_collapse_to_two_reports_witness:
  "exists_raises env_bad_parse = None
   \<and> fst (load_data_to_sql env_bad_parse world0) = Returned False
   \<and> reports (run_trace env_bad_parse world0) = [Print_Error ''ParserError'']"
proof -
  have h: "exists_raises env_bad_parse = None"
    by (simp add: env_bad_parse_def env_ok_def env_with_def)
  have f: "first_failure env_bad_parse = Some (Load_Failed ''ParserError'')"
    by (simp add: first_failure_def block_raises_def env_bad_parse_def env_ok_def env_with_def)
  have r: "report_or_raise env_bad_parse (Print_Error ''ParserError'')
             = (Returned False, [Print_Error ''ParserError''])"
    by (simp add: report_or_raise_def env_bad_parse_def env_ok_def env_with_def)
  from failures_collapse_to_two_reports [OF h, of world0] h show ?thesis
    by (simp add: f r)
qed

text \<open>
  C4. The write is additive only. In every run, whatever its outcome, the table after
  the run begins with the table before the run, row for row and unchanged; and every
  write the run issues is issued in append mode, never in replace or fail mode.
\<close>

theorem existing_rows_untouched: "take (length (customers w)) (customers (snd (load_data_to_sql env w))) = customers w
  \<and> (\<forall>df m i. Call_To_Sql df m i \<in> set (run_trace env w) \<longrightarrow> m = Append)"
  by (cases env w rule: run_cases)
    (auto simp add: run_trace_def steps_defs report_or_raise_def not_in_partial
      not_in_partial [OF partial_full]
      split: option.splits)

theorem existing_rows_untouched_witness:
  "Call_To_Sql scenario_A Append False \<in> set (run_trace (env_ok scenario_A) world1)
   \<and> take 1 (customers (snd (load_data_to_sql (env_ok scenario_A) world1)))
       = [([''id'', ''name''], [IntCell 0, StrCell ''Zoe''])]
   \<and> length (customers (snd (load_data_to_sql (env_ok scenario_A) world1))) = 4"
proof -
  have h: "Call_To_Sql scenario_A Append False \<in> set (run_trace (env_ok scenario_A) world1)"
    by (simp add: run_trace_env_ok steps_defs)
  have n: "length (customers (snd (load_data_to_sql (env_ok scenario_A) world1))) = 4"
    by (simp add: load_env_ok insert_rows_False scenario_A_def world1_def)
  from existing_rows_untouched [of world1 "env_ok scenario_A"] h n show ?thesis
    by (simp add: world1_def)
qed

text \<open>
  C5. The routine is not idempotent. Two successful runs on the same file, the second
  starting from the table the first left, append the rows of the file twice: the table
  grows by twice their number, and when the file has a data row the second run changes
  the table the first one left.
\<close>

theorem two_runs_append_twice:
  assumes "csv_file env1 = Some (Inr df)" and "csv_file env2 = Some (Inr df)"
    and "load_data_to_sql env1 w = (Returned True, w1)"
    and "load_data_to_sql env2 w1 = (Returned True, w2)"
  shows "customers w1 = customers w @ insert_rows False df
    \<and> customers w2 = customers w @ insert_rows False df @ insert_rows False df
    \<and> length (customers w2) = length (customers w) + 2 * length (rows df)
    \<and> (rows df \<noteq> [] \<longrightarrow> customers w2 \<noteq> customers w1)"
proof -
  from assms(3) have "fst (load_data_to_sql env1 w) = Returned True" by simp
  from load_true [OF this assms(1)] assms(3)
  have c1: "customers w1 = customers w @ insert_rows False df" by auto
  from assms(4) have "fst (load_data_to_sql env2 w1) = Returned True" by simp
  from load_true [OF this assms(2)] assms(4)
  have c2: "customers w2 = customers w1 @ insert_rows False df" by auto
  from c1 c2 show ?thesis by (simp add: insert_rows_False)
qed

theorem two_runs_append_twice_witness:
  "csv_file (env_ok scenario_A) = Some (Inr scenario_A)
   \<and> load_data_to_sql (env_ok scenario_A) world0
       = (Returned True, snd (load_data_to_sql (env_ok scenario_A) world0))
   \<and> load_data_to_sql (env_ok scenario_A) (snd (load_data_to_sql (env_ok scenario_A) world0))
       = (Returned True, snd (load_data_to_sql (env_ok scenario_A)
                       (snd (load_data_to_sql (env_ok scenario_A) world0))))
   \<and> rows scenario_A \<noteq> []
   \<and> length (customers (snd (load_data_to_sql (env_ok scenario_A) world0))) = 3
   \<and> length (customers (snd (load_data_to_sql (env_ok scenario_A)
                (snd (load_data_to_sql (env_ok scenario_A) world0))))) = 6"
proof -
  note h1 = csv_file_env_ok [of scenario_A]
  have h2: "load_data_to_sql (env_ok scenario_A) v
              = (Returned True, snd (load_data_to_sql (env_ok scenario_A) v))" for v
    using true_env_ok [of scenario_A v] by (cases "load_data_to_sql (env_ok scenario_A) v") simp
  have r: "rows scenario_A \<noteq> []" "length (rows scenario_A) = 3"
    by (simp_all add: scenario_A_def)
  from two_runs_append_twice [OF h1 h1 h2 h2, of world0] h1 h2 r show ?thesis
    by (simp add: world0_def insert_rows_False)
qed

text \<open>
  C6, as the claim states it: after a successful load the column names written are the
  header row of the file exactly, none renamed. pandas renames a name that the header
  row repeats: a file with the header \<^verbatim>\<open>id,id\<close> loads successfully and its columns
  are written as \<^verbatim>\<open>id\<close> and \<^verbatim>\<open>id.1\<close>.
\<close>

theorem repeated_header_name_counterexample:
  "header_row (env_with [''id'', ''id''] twice_id) = [''id'', ''id'']
   \<and> columns twice_id = read_csv_labels [''id'', ''id'']
   \<and> fst (load_data_to_sql (env_with [''id'', ''id''] twice_id) world0) = Returned True
   \<and> map fst (customers (snd (load_data_to_sql (env_with [''id'', ''id''] twice_id) world0)))
       = [[''id'', ''id.1'']]"
proof -
  note t = true_env_with [of "[''id'', ''id'']" twice_id world0]
  note c = csv_file_env_with [of "[''id'', ''id'']" twice_id]
  show ?thesis
    by (simp add: t load_true [OF t c] map_fst_insert_rows)
      (simp add: env_with_def twice_id_def labels_twice_id world0_def)
qed

text \<open>
  C6, amended. After a successful load every appended row was written under exactly the
  column labels pandas gave the frame from the header row, in their order: the one write
  of the run is the frame itself in append mode with \<^verbatim>\<open>index=False\<close>, the loader
  renames, reorders, drops and adds no column, and no write carries an index column.
  These labels are the header row itself when its names are distinct and none is empty.
\<close>

theorem columns_written_as_labelled:
  assumes "csv_file env = Some (Inr df)" and "columns df = read_csv_labels (header_row env)"
    and "fst (load_data_to_sql env w) = Returned True"
  shows "map fst (drop (length (customers w)) (customers (snd (load_data_to_sql env w))))
           = replicate (length (rows df)) (read_csv_labels (header_row env))
    \<and> (distinct (header_row env) \<and> [] \<notin> set (header_row env) \<longrightarrow>
          map fst (drop (length (customers w)) (customers (snd (load_data_to_sql env w))))
            = replicate (length (rows df)) (header_row env))
    \<and> Call_To_Sql df Append False \<in> set (run_trace env w)
    \<and> (\<forall>f m. Call_To_Sql f m True \<notin> set (run_trace env w))"
  using assms(2)
  by (simp add: load_true [OF assms(3,1)] run_trace_true [OF assms(3,1)] map_fst_insert_rows
      read_csv_labels_distinct steps_defs not_in_partial [OF partial_full])

theorem columns_written_as_labelled_witness:
  "csv_file (env_ok scenario_A) = Some (Inr scenario_A)
   \<and> columns scenario_A = read_csv_labels (header_row (env_ok scenario_A))
   \<and> fst (load_data_to_sql (env_ok scenario_A) world1) = Returned True
   \<and> distinct (header_row (env_ok scenario_A)) \<and> [] \<notin> set (header_row (env_ok scenario_A))
   \<and> header_row (env_ok scenario_A) = [''id'', ''name'']
   \<and> map fst (drop 1 (customers (snd (load_data_to_sql (env_ok scenario_A) world1))))
       = [[''id'', ''name''], [''id'', ''name''], [''id'', ''name'']]"
proof -
  note h1 = csv_file_env_ok [of scenario_A]
  have hd: "header_row (env_ok scenario_A) = [''id'', ''name'']"
    by (simp add: env_ok_def env_with_def scenario_A_def)
  have d: "distinct (header_row (env_ok scenario_A))" "[] \<notin> set (header_row (env_ok scenario_A))"
    by (simp_all add: hd)
  have h2: "columns scenario_A = read_csv_labels (header_row (env_ok scenario_A))"
    unfolding read_csv_labels_distinct [OF d] by (simp add: env_ok_def env_with_def)
  note h3 = true_env_ok [of scenario_A world1]
  have r: "replicate (length (rows scenario_A)) [''id'', ''name'']
             = [[''id'', ''name''], [''id'', ''name''], [''id'', ''name'']]"
    by (simp add: scenario_A_def numeral_3_eq_3)
  have n: "length (customers world1) = 1"
    by (simp add: world1_def)
  from columns_written_as_labelled [OF h1 h2 h3] d
  have "map fst (drop (length (customers world1))
                  (customers (snd (load_data_to_sql (env_ok scenario_A) world1))))
          = replicate (length (rows scenario_A)) (header_row (env_ok scenario_A))"
    by blast
  then have "map fst (drop 1 (customers (snd (load_data_to_sql (env_ok scenario_A) world1))))
       = [[''id'', ''name''], [''id'', ''name''], [''id'', ''name'']]"
    by (simp only: n hd r)
  with h1 h2 h3 d hd show ?thesis
    by blast
qed

lemma trace_sorted_by_phase: "sorted (map phase (run_trace env w))"
  by (cases env w rule: run_cases)
    (simp_all add: run_trace_eq tail_simps steps_defs sorted_append phase_preview
      phase_partial sorted_phase_partial full_preview_simps)

lemma engine_only_after_parse:
  "Call_Create_Engine \<in> set (run_trace env w) \<or> Call_Connect \<in> set (run_trace env w)
     \<Longrightarrow> \<exists>df. csv_file env = Some (Inr df)"
  by (cases env w rule: run_cases)
    (simp_all add: run_trace_eq set_tail steps_parse_def split: if_splits)

lemma write_only_after_connected:
  "(\<exists>df m i. Call_To_Sql df m i \<in> set (run_trace env w))
    \<or> customers (snd (load_data_to_sql env w)) \<noteq> customers w
     \<Longrightarrow> Print_Connected \<in> set (before_write (run_trace env w))"
  by (cases env w rule: run_cases)
    (simp_all add: run_trace_eq tail_simps steps_defs not_in_partial before_write_partial
      full_preview_simps split: if_splits)

text \<open>
  C7. In every run the events occur in the order of the six steps: parse, preview, open
  a connection, verify it, append, report; a run that returns true goes through all six.
  An engine is created or a connection attempted only when the file has parsed, and a
  write is issued, or the table changed, only after the connection was reported live.
\<close>

theorem steps_in_fixed_order:
  "sorted (map phase (run_trace env w))
   \<and> (fst (load_data_to_sql env w) = Returned True
        \<longrightarrow> set (map phase (run_trace env w)) = {0, 1, 2, 3, 4, 5})
   \<and> (Call_Create_Engine \<in> set (run_trace env w) \<or> Call_Connect \<in> set (run_trace env w)
        \<longrightarrow> (\<exists>df. csv_file env = Some (Inr df)))
   \<and> ((\<exists>df m i. Call_To_Sql df m i \<in> set (run_trace env w))
        \<longrightarrow> Print_Connected \<in> set (before_write (run_trace env w)))
   \<and> (customers (snd (load_data_to_sql env w)) \<noteq> customers w
        \<longrightarrow> Print_Connected \<in> set (before_write (run_trace env w)))"
proof -
  have "set (map phase (run_trace env w)) = {0, 1, 2, 3, 4, 5}"
    if t: "fst (load_data_to_sql env w) = Returned True"
  proof -
    from t obtain df where df: "csv_file env = Some (Inr df)"
      by (cases env w rule: run_cases) simp_all
    have "phase ` set (preview_events df) = {1}" by (rule phases_of_preview)
    then show ?thesis
      by (simp add: run_trace_true [OF t df] steps_defs) auto
  qed
  with trace_sorted_by_phase [of env w] engine_only_after_parse [of env w] write_only_after_connected [of env w] show ?thesis
    by blast
qed

theorem steps_in_fixed_order_witness:
  "fst (load_data_to_sql (env_ok scenario_A) world0) = Returned True
   \<and> Call_Connect \<in> set (run_trace (env_ok scenario_A) world0)
   \<and> Call_To_Sql scenario_A Append False \<in> set (run_trace (env_ok scenario_A) world0)
   \<and> customers (snd (load_data_to_sql (env_ok scenario_A) world0)) \<noteq> customers world0
   \<and> map phase (run_trace (env_ok scenario_A) world0)
       = [0, 0, 1, 1, 1, 1, 2, 2, 2, 2, 3, 3, 4, 4, 4, 4, 4, 5, 5]
   \<and> sorted (map phase (run_trace (env_ok scenario_A) world0))
   \<and> Print_Connected \<in> set (before_write (run_trace (env_ok scenario_A) world0))"
proof -
  note h1 = true_env_ok [of scenario_A world0]
  have h2: "Call_Connect \<in> set (run_trace (env_ok scenario_A) world0)"
    and h3: "Call_To_Sql scenario_A Append False \<in> set (run_trace (env_ok scenario_A) world0)"
    by (simp_all add: run_trace_env_ok steps_defs)
  have h4: "customers (snd (load_data_to_sql (env_ok scenario_A) world0)) \<noteq> customers world0"
    by (simp add: load_env_ok insert_rows_False scenario_A_def world0_def)
  have p: "map phase (run_trace (env_ok scenario_A) world0)
       = [0, 0, 1, 1, 1, 1, 2, 2, 2, 2, 3, 3, 4, 4, 4, 4, 4, 5, 5]"
    by (simp add: run_trace_env_ok steps_defs preview_events_def missing_def
        isnull_sum_def scenario_A_def upt_rec)
  from steps_in_fixed_order [of "env_ok scenario_A" world0] h1 h2 h3 h4 p show ?thesis
    by blast
qed

text \<open>
  C8, as the claim states it: each run acquires exactly one connection handle, writes
  through it and releases it after the write. The routine does otherwise. A run whose
  file is missing acquires no handle; a run that succeeds acquires two: its own, for the
  liveness check of lines 44 and 45, released before line 48 is reached, and the one
  pandas checks out of the engine inside \<^verbatim>\<open>to_sql\<close>, through which the rows go.
\<close>

theorem one_handle_for_the_write_counterexample:
  "count_list (run_trace env_missing world0) Conn_Acquired
     + count_list (run_trace env_missing world0) Pandas_Conn_Acquired = 0
   \<and> count_list (run_trace (env_ok scenario_A) world0) Conn_Acquired
     + count_list (run_trace (env_ok scenario_A) world0) Pandas_Conn_Acquired = 2
   \<and> held_at_inserts (0, 0) (run_trace (env_ok scenario_A) world0) = [(0, 1)]"
proof -
  have "run_trace env_missing world0
          = [Print_Not_Found [''repo'', ''data'', ''WA_Fn-UseC_-Telco-Customer-Churn.csv'']]"
    by (simp add: run_trace_def load_data_to_sql_def py_print_def emit_def env_missing_def
        env_ok_def env_with_def CSV_PATH_def)
  then show ?thesis
    by (simp add: run_trace_env_ok steps_defs full_preview_simps)
qed

lemma handles_balanced:
  "count_list (run_trace env w) Conn_Acquired \<le> 1
   \<and> count_list (run_trace env w) Pandas_Conn_Acquired \<le> 1
   \<and> count_list (run_trace env w) Conn_Released = count_list (run_trace env w) Conn_Acquired
   \<and> count_list (run_trace env w) Pandas_Conn_Released
       = count_list (run_trace env w) Pandas_Conn_Acquired"
  by (cases env w rule: run_cases)
    (simp_all add: run_trace_eq count_list_tail steps_defs count_list_partial full_preview_simps)

lemma insert_through_pandas_handle:
  "held_at_inserts (0, 0) (run_trace env w)
       = (if Pandas_Insert \<in> set (run_trace env w) then [(0, 1)] else [])"
  by (cases env w rule: run_cases)
    (simp_all add: run_trace_eq tail_simps steps_defs held_partial not_in_partial
      full_preview_simps)

lemma own_handle_released_first:
  "Pandas_Conn_Acquired \<in> set (run_trace env w)
     \<Longrightarrow> Conn_Released \<in> set (before_write (run_trace env w))"
  by (cases env w rule: run_cases)
    (simp_all add: run_trace_eq tail_simps steps_defs not_in_partial before_write_partial
      full_preview_simps split: if_splits)

lemma handles_only_after_parse:
  "Conn_Acquired \<in> set (run_trace env w) \<or> Pandas_Conn_Acquired \<in> set (run_trace env w)
     \<Longrightarrow> \<exists>df. csv_file env = Some (Inr df)"
  by (cases env w rule: run_cases)
    (simp_all add: run_trace_eq set_tail steps_parse_def split: if_splits)

text \<open>
  C8, amended. Per run at most two connection handles are acquired, and none unless the
  file has parsed: the routine's own, opened for the liveness check and released before
  the write is called, and the one pandas checks out inside the write. Each handle
  acquired is released, also when the step it serves fails. The rows are inserted at
  most once per run, through the handle of pandas alone: it is opened for the insert,
  and the routine's own handle is no longer held. A run that returns true has acquired
  exactly these two handles.
\<close>

theorem handles_acquired_and_released:
  "count_list (run_trace env w) Conn_Acquired \<le> 1
   \<and> count_list (run_trace env w) Pandas_Conn_Acquired \<le> 1
   \<and> count_list (run_trace env w) Conn_Released = count_list (run_trace env w) Conn_Acquired
   \<and> count_list (run_trace env w) Pandas_Conn_Released
       = count_list (run_trace env w) Pandas_Conn_Acquired
   \<and> held_at_inserts (0, 0) (run_trace env w)
       = (if Pandas_Insert \<in> set (run_trace env w) then [(0, 1)] else [])
   \<and> (Pandas_Conn_Acquired \<in> set (run_trace env w) \<longrightarrow>
        Conn_Released \<in> set (before_write (run_trace env w)))
   \<and> (Conn_Acquired \<in> set (run_trace env w) \<or> Pandas_Conn_Acquired \<in> set (run_trace env w)
        \<longrightarrow> (\<exists>df. csv_file env = Some (Inr df)))
   \<and> (fst (load_data_to_sql env w) = Returned True \<longrightarrow>
        count_list (run_trace env w) Conn_Acquired = 1
        \<and> count_list (run_trace env w) Pandas_Conn_Acquired = 1)"
proof -
  have "count_list (run_trace env w) Conn_Acquired = 1
        \<and> count_list (run_trace env w) Pandas_Conn_Acquired = 1"
    if t: "fst (load_data_to_sql env w) = Returned True"
  proof -
    from t obtain df where df: "csv_file env = Some (Inr df)"
      by (cases env w rule: run_cases) simp_all
    show ?thesis
      by (simp add: run_trace_true [OF t df] steps_defs full_preview_simps)
  qed
  with handles_balanced [of env w] insert_through_pandas_handle [of env w] own_handle_released_first [of env w] handles_only_after_parse [of env w]
  show ?thesis
    by blast
qed

theorem handles_acquired_and_released_witness:
  "fst (load_data_to_sql (env_ok scenario_A) world0) = Returned True
   \<and> Conn_Acquired \<in> set (run_trace (env_ok scenario_A) world0)
   \<and> Pandas_Conn_Acquired \<in> set (run_trace (env_ok scenario_A) world0)
   \<and> Pandas_Insert \<in> set (run_trace (env_ok scenario_A) world0)
   \<and> count_list (run_trace (env_ok scenario_A) world0) Conn_Released = 1
   \<and> count_list (run_trace (env_ok scenario_A) world0) Pandas_Conn_Released = 1
   \<and> held_at_inserts (0, 0) (run_trace (env_ok scenario_A) world0) = [(0, 1)]
   \<and> Conn_Released \<in> set (before_write (run_trace (env_ok scenario_A) world0))"
proof -
  note h1 = true_env_ok [of scenario_A world0]
  have h2: "Conn_Acquired \<in> set (run_trace (env_ok scenario_A) world0)"
    "Pandas_Conn_Acquired \<in> set (run_trace (env_ok scenario_A) world0)"
    "Pandas_Insert \<in> set (run_trace (env_ok scenario_A) world0)"
    by (simp_all add: run_trace_env_ok steps_defs)
  from handles_acquired_and_released [of "env_ok scenario_A" world0] h1 h2 show ?thesis
    by simp
qed



text \<open>
  C10. A file of a header and no data row is not an error. When it parses to a frame
  without rows and nothing of the environment raises (the existence test, the prints,
  the engine, the connections, the write), the routine returns true, the preview reports
  0 rows, the table is what it was, the success report gives 0 rows, and no failure is
  reported.
\<close>

theorem header_only_file_succeeds:
  assumes "csv_file env = Some (Inr df)" and "rows df = []"
    and "exists_raises env = None" and "\<forall>e. print_raises env e = None"
    and "create_engine_raises env = None" and "connect_raises env = None"
    and "to_sql_connect_raises env = None" and "to_sql_raises env = None"
  shows "fst (load_data_to_sql env w) = Returned True
    \<and> customers (snd (load_data_to_sql env w)) = customers w
    \<and> Print_Loaded 0 (length (columns df)) \<in> set (run_trace env w)
    \<and> Print_Success 0 \<in> set (run_trace env w)
    \<and> reports (run_trace env w) = []"
proof -
  have t: "fst (load_data_to_sql env w) = Returned True"
    using assms(3) first_failure_quiet [OF assms(1,4-8)] by (simp add: load_true_iff)
  from assms(2) show ?thesis
    by (simp add: t load_true [OF t assms(1)] run_trace_true [OF t assms(1)] steps_defs
        insert_rows_False reports_append reports_simps full_preview_simps)
      (simp add: preview_events_def)
qed

theorem header_only_file_succeeds_witness:
  "csv_file (env_ok header_only) = Some (Inr header_only)
   \<and> rows header_only = []
   \<and> exists_raises (env_ok header_only) = None
   \<and> (\<forall>e. print_raises (env_ok header_only) e = None)
   \<and> create_engine_raises (env_ok header_only) = None
   \<and> connect_raises (env_ok header_only) = None
   \<and> to_sql_connect_raises (env_ok header_only) = None
   \<and> to_sql_raises (env_ok header_only) = None
   \<and> fst (load_data_to_sql (env_ok header_only) world1) = Returned True
   \<and> customers (snd (load_data_to_sql (env_ok header_only) world1)) = customers world1
   \<and> Print_Loaded 0 2 \<in> set (run_trace (env_ok header_only) world1)
   \<and> Print_Success 0 \<in> set (run_trace (env_ok header_only) world1)"
proof -
  have h: "csv_file (env_ok header_only) = Some (Inr header_only)"
    "rows header_only = []"
    "exists_raises (env_ok header_only) = None"
    "\<forall>e. print_raises (env_ok header_only) e = None"
    "create_engine_raises (env_ok header_only) = None"
    "connect_raises (env_ok header_only) = None"
    "to_sql_connect_raises (env_ok header_only) = None"
    "to_sql_raises (env_ok header_only) = None"
    by (simp_all add: env_ok_def env_with_def header_only_def)
  have c: "length (columns header_only) = 2"
    by (simp add: header_only_def)
  from header_only_file_succeeds [OF h, of world1] h c show ?thesis
    by simp
qed

end
